theory Spec2Isabelle
  imports Main "HOL-Library.Sublist"
begin

section \<open>The cleanup path calculator (pkg/cluster/manager)\<close>

subsection \<open>Topology\<close>

text \<open>
  \<^verbatim>\<open>spec.Instance\<close> is an interface; an instance is modelled by the values its methods
  return: \<^verbatim>\<open>ComponentName()\<close>, \<^verbatim>\<open>ID()\<close>, \<^verbatim>\<open>GetHost()\<close>, \<^verbatim>\<open>GetSSHPort()\<close>, \<^verbatim>\<open>OS()\<close>,
  \<^verbatim>\<open>Arch()\<close>, \<^verbatim>\<open>DataDir()\<close>, \<^verbatim>\<open>LogDir()\<close>, \<^verbatim>\<open>DeployDir()\<close> and \<^verbatim>\<open>IgnoreMonitorAgent()\<close>.
\<close>

record Instance =
  ComponentName :: string
  ID :: string
  GetHost :: string
  GetSSHPort :: int
  OS :: string
  Arch :: string
  DataDir :: string
  LogDir :: string
  DeployDir :: string
  IgnoreMonitorAgent :: bool

record Component =
  Name :: string
  Instances :: "Instance list"

record GlobalOptions =
  User :: string
  TLSEnabled :: bool

record MonitoredOptions =
  DeployDir :: string
  DataDir :: string
  LogDir :: string

record BaseTopo =
  GlobalOptions :: GlobalOptions
  MonitoredOptions :: "MonitoredOptions option"

record Topology =
  ComponentsByStartOrder :: "Component list"
  BaseTopo :: BaseTopo

text \<open>
  Modelled from the spec: \<^verbatim>\<open>ComponentsByStopOrder\<close> is declared in pkg/cluster/spec, outside
  the sources at hand; the spec guarantees that it is the reverse of the start order.
\<close>

definition ComponentsByStopOrder :: "Topology \<Rightarrow> Component list" where
  "ComponentsByStopOrder topo = rev (ComponentsByStartOrder topo)"

text \<open>
  Modelled from the spec: \<^verbatim>\<open>IterInstance\<close> is declared in pkg/cluster/spec as well; it calls
  its argument on every instance of every component of the topology. The instances are
  listed here in the order of the visit, taken to be the start order.
\<close>

definition IterInstance :: "Topology \<Rightarrow> Instance list" where
  "IterInstance topo = concat (map Instances (ComponentsByStartOrder topo))"

subsection \<open>What the calculator takes from other packages\<close>

text \<open>
  \<^verbatim>\<open>path.Join\<close> and \<^verbatim>\<open>filepath.Join\<close> (Go's standard library), \<^verbatim>\<open>spec.Abs\<close> and the constants
  \<^verbatim>\<open>spec.TLSCertKeyDir\<close>, \<^verbatim>\<open>spec.ComponentNodeExporter\<close> and \<^verbatim>\<open>spec.ComponentBlackboxExporter\<close>
  are not defined in the sources at hand: the calculator is modelled for any choice of
  them.
\<close>

record Env =
  pathJoin :: "string \<Rightarrow> string \<Rightarrow> string"
  filepathJoin :: "string \<Rightarrow> string \<Rightarrow> string"
  specAbs :: "string \<Rightarrow> string \<Rightarrow> string"
  TLSCertKeyDir :: string
  ComponentNodeExporter :: string
  ComponentBlackboxExporter :: string

text \<open>\<^verbatim>\<open>strings.Split(s, sep)\<close> for a separator of one byte.\<close>

fun Split :: "string \<Rightarrow> char \<Rightarrow> string list" where
  "Split [] sep = [[]]"
| "Split (x # xs) sep =
     (if x = sep then [] # Split xs sep
      else (case Split xs sep of
              [] \<Rightarrow> [[x]]
            | w # ws \<Rightarrow> (x # w) # ws))"

subsection \<open>getMonitorHosts\<close>

record hostInfo =
  ssh :: int
  os :: string
  arch :: string

definition getMonitorHosts :: "Topology \<Rightarrow> (string \<rightharpoonup> hostInfo) \<times> string set" where
  "getMonitorHosts topo =
     fold (\<lambda>inst (uniqueHosts, noAgentHosts).
             (if uniqueHosts (GetHost inst) = None
                then uniqueHosts(GetHost inst \<mapsto>
                       \<lparr>ssh = GetSSHPort inst, os = Instance.OS inst, arch = Arch inst\<rparr>)
              else uniqueHosts,
              if IgnoreMonitorAgent inst then insert (GetHost inst) noAgentHosts
              else noAgentHosts))
       (IterInstance topo) (Map.empty, {})"

subsection \<open>cleanUpFiles\<close>

text \<open>
  A \<^verbatim>\<open>set.StringSet\<close> is a Go map from strings to the empty struct: a set of strings.
  \<^verbatim>\<open>delFileMap\<close> maps a host to its set of path globs.
\<close>

record cleanUpFiles =
  cleanupData :: bool
  cleanupLog :: bool
  cleanupTLS :: bool
  retainDataRoles :: "string list"
  retainDataNodes :: "string list"
  delFileMap :: "string \<rightharpoonup> string set"

text \<open>
  \<^verbatim>\<open>c.delFileMap[host].Join(logPaths).Join(dataPaths).Join(tlsPath)\<close>, after the entry of
  the host has been created when it was missing.
\<close>

definition joinInto :: "(string \<rightharpoonup> string set) \<Rightarrow> string \<Rightarrow> string set \<Rightarrow> string set \<Rightarrow> string set
    \<Rightarrow> (string \<rightharpoonup> string set)" where
  "joinInto m host logPaths dataPaths tlsPath =
     (let m1 = (if m host = None then m(host \<mapsto> {}) else m)
      in case m1 host of
           None \<Rightarrow> m1
         | Some s \<Rightarrow> m1(host \<mapsto> ((s \<union> logPaths) \<union> dataPaths) \<union> tlsPath))"

text \<open>The body of the inner loop of \<^verbatim>\<open>instanceCleanupFiles\<close>, for one instance.\<close>

definition cleanupInstance :: "Env \<Rightarrow> Topology \<Rightarrow> Instance \<Rightarrow> cleanUpFiles \<Rightarrow> cleanUpFiles" where
  "cleanupInstance L topo ins c =
     (let retainRoles = set (retainDataRoles c);
          retainNodes = set (retainDataNodes c)
      in if (ComponentName ins = ComponentNodeExporter L
               \<or> ComponentName ins = ComponentBlackboxExporter L)
              \<and> IgnoreMonitorAgent ins
           then c
         else
           let dataRetained = (ComponentName ins \<in> retainRoles
                                 \<or> ID ins \<in> retainNodes \<or> GetHost ins \<in> retainNodes)
           in if dataRetained then c
              else
                let dataPaths =
                      (if cleanupData c \<and> length (Instance.DataDir ins) > 0
                         then fold (\<lambda>dataDir s. insert (pathJoin L dataDir ''*'') s)
                                (Split (Instance.DataDir ins) CHR '','') {}
                       else {});
                    logPaths =
                      (if cleanupLog c \<and> length (Instance.LogDir ins) > 0
                         then fold (\<lambda>logDir s. insert (pathJoin L logDir ''*.log'') s)
                                (Split (Instance.LogDir ins) CHR '','') {}
                       else {});
                    tlsPath =
                      (if cleanupTLS c \<and> \<not> TLSEnabled (GlobalOptions (BaseTopo topo))
                         then {filepathJoin L
                                 (specAbs L (User (GlobalOptions (BaseTopo topo))) (Instance.DeployDir ins))
                                 (TLSCertKeyDir L)}
                       else {})
                in c\<lparr>delFileMap := joinInto (delFileMap c) (GetHost ins) logPaths dataPaths tlsPath\<rparr>)"

definition instanceCleanupFiles :: "Env \<Rightarrow> Topology \<Rightarrow> cleanUpFiles \<Rightarrow> cleanUpFiles" where
  "instanceCleanupFiles L topo c =
     fold (\<lambda>com c1. fold (cleanupInstance L topo) (Instances com) c1)
       (ComponentsByStopOrder topo) c"

text \<open>The body of the loop of \<^verbatim>\<open>monitorCleanupFiles\<close>, for one host.\<close>

definition cleanupMonitorHost ::
  "Env \<Rightarrow> Topology \<Rightarrow> MonitoredOptions \<Rightarrow> string set \<Rightarrow> string \<Rightarrow> cleanUpFiles \<Rightarrow> cleanUpFiles" where
  "cleanupMonitorHost L topo monitoredOptions noAgentHosts host c =
     (let user = User (GlobalOptions (BaseTopo topo));
          dataRetained = (host \<in> noAgentHosts \<or> host \<in> set (retainDataNodes c))
      in if dataRetained then c
         else
           let deployDir = specAbs L user (MonitoredOptions.DeployDir monitoredOptions);
               dataDir = MonitoredOptions.DataDir monitoredOptions;
               dataPaths =
                 (if cleanupData c \<and> length dataDir > 0
                    then {pathJoin L
                            (if \<not> prefix ''/'' dataDir then filepathJoin L deployDir dataDir
                             else dataDir) ''*''}
                  else {});
               logDir = specAbs L user (MonitoredOptions.LogDir monitoredOptions);
               logPaths =
                 (if cleanupLog c \<and> length logDir > 0 then {pathJoin L logDir ''*.log''} else {});
               tlsPath =
                 (if cleanupTLS c \<and> \<not> TLSEnabled (GlobalOptions (BaseTopo topo))
                    then {filepathJoin L deployDir (TLSCertKeyDir L)}
                  else {})
           in c\<lparr>delFileMap := joinInto (delFileMap c) host logPaths dataPaths tlsPath\<rparr>)"

text \<open>
  \<^verbatim>\<open>monitorCleanupFiles\<close>. Go visits the keys of the map \<^verbatim>\<open>uniqueHosts\<close> in an order that is
  not specified; \<open>hostOrder\<close> is the order of one run, and lists the keys of the map.
\<close>

definition monitorCleanupFiles :: "Env \<Rightarrow> Topology \<Rightarrow> string list \<Rightarrow> cleanUpFiles \<Rightarrow> cleanUpFiles" where
  "monitorCleanupFiles L topo hostOrder c =
     (case MonitoredOptions (BaseTopo topo) of
        None \<Rightarrow> c
      | Some monitoredOptions \<Rightarrow>
          (case getMonitorHosts topo of
             (uniqueHosts, noAgentHosts) \<Rightarrow>
               fold (cleanupMonitorHost L topo monitoredOptions noAgentHosts) hostOrder c))"

definition getCleanupFiles ::
  "Env \<Rightarrow> Topology \<Rightarrow> bool \<Rightarrow> bool \<Rightarrow> bool \<Rightarrow> string list \<Rightarrow> string list \<Rightarrow> string list
     \<Rightarrow> (string \<rightharpoonup> string set)" where
  "getCleanupFiles L topo cleanData cleanLog cleanTLS retainRoles retainNodes hostOrder =
     (let c = \<lparr>cleanupData = cleanData, cleanupLog = cleanLog, cleanupTLS = cleanTLS,
               retainDataRoles = retainRoles, retainDataNodes = retainNodes,
               delFileMap = Map.empty\<rparr>
      in delFileMap (monitorCleanupFiles L topo hostOrder (instanceCleanupFiles L topo c)))"

section \<open>Manager operations (pkg/cluster/manager)\<close>

text \<open>
  The Manager operations call collaborators that live outside the sources at hand: the
  spec manager (\<^verbatim>\<open>ScaleOutLockedErr\<close>), the metadata loader (\<^verbatim>\<open>m.meta\<close>), \<^verbatim>\<open>TLSConfig\<close>, the
  confirmation prompt, \<^verbatim>\<open>sshTaskBuilder\<close>, and the operator primitives run by the steps of
  the task. A \<open>World\<close> fixes what each of them answers; an operation returns its error
  together with the trace of what it did, in order. Log lines are left out.
\<close>

datatype mgrError =
    LockedErr string
  | MetaErr string
  | TLSErr string
  | AbortErr
  | BuilderErr string
  | OperatorErr string
  | StepErr string mgrError
  | Traced mgrError

datatype event =
    LockChecked string
  | MetaLoaded string
  | TLSConfigured string
  | Prompted
  | BuilderCreated string
  | TaskBuilt "string list"
  | StepExecuted string

record World =
  ScaleOutLockedErr :: "string \<Rightarrow> mgrError option"
  metaErr :: "string \<Rightarrow> (mgrError \<times> bool) option"
  TLSConfigErr :: "string \<Rightarrow> mgrError option"
  PromptForConfirmOrAbortError :: "mgrError option"
  sshTaskBuilder :: "string \<Rightarrow> mgrError + string list"
  operatorResult :: "string \<Rightarrow> mgrError option"
  errorxCast :: "mgrError \<Rightarrow> bool"

type_synonym opResult = "mgrError option \<times> event list"

text \<open>
  Modelled from the spec: \<^verbatim>\<open>Task.Execute\<close> (pkg/cluster/task) is not part of the sources at
  hand. The spec: it runs the steps strictly in declared order; the first step to fail
  aborts the remaining pipeline and the error is returned, wrapped with the name of the
  failing step. The steps that the operations add by \<^verbatim>\<open>b.Func(name, fn)\<close> run an operator
  primitive; a step is modelled by its name, and \<open>operatorResult\<close> gives its outcome.
\<close>

fun TaskExecute :: "World \<Rightarrow> string list \<Rightarrow> opResult" where
  "TaskExecute w [] = (None, [])"
| "TaskExecute w (step # steps) =
     (case operatorResult w step of
        Some err \<Rightarrow> (Some (StepErr step err), [StepExecuted step])
      | None \<Rightarrow> (case TaskExecute w steps of (r, evs) \<Rightarrow> (r, StepExecuted step # evs)))"

text \<open>
  The common tail of the four operations: \<^verbatim>\<open>b.Build()\<close>, \<^verbatim>\<open>t.Execute\<close>, and the treatment of
  its error (returned as it is when \<^verbatim>\<open>errorx.Cast\<close> accepts it, behind \<^verbatim>\<open>perrs.Trace\<close>
  otherwise).
\<close>

definition buildAndExecute :: "World \<Rightarrow> string list \<Rightarrow> opResult" where
  "buildAndExecute w b =
     (case TaskExecute w b of
        (Some err, evs) \<Rightarrow> (Some (if errorxCast w err then err else Traced err), TaskBuilt b # evs)
      | (None, evs) \<Rightarrow> (None, TaskBuilt b # evs))"

text \<open>
  \<^verbatim>\<open>m.meta(name)\<close> followed by the test
  \<^verbatim>\<open>err != nil && !errors.Is(perrs.Cause(err), meta.ErrValidate)\<close>: the error that makes the
  operation return, if any. The flag paired with the error says whether its cause is
  \<^verbatim>\<open>meta.ErrValidate\<close>.
\<close>

definition metaFatal :: "World \<Rightarrow> string \<Rightarrow> mgrError option" where
  "metaFatal w name =
     (case metaErr w name of
        Some (err, isValidate) \<Rightarrow> if \<not> isValidate then Some err else None
      | None \<Rightarrow> None)"

definition EnableCluster :: "World \<Rightarrow> string \<Rightarrow> bool \<Rightarrow> opResult" where
  "EnableCluster w name isEnable =
     (case metaFatal w name of
        Some err \<Rightarrow> (Some err, [MetaLoaded name])
      | None \<Rightarrow>
          (case sshTaskBuilder w name of
             Inl err \<Rightarrow> (Some err, [MetaLoaded name, BuilderCreated name])
           | Inr b \<Rightarrow>
               (let b1 = (if isEnable then b @ [''EnableCluster''] else b @ [''DisableCluster''])
                in case buildAndExecute w b1 of
                     (r, evs) \<Rightarrow> (r, [MetaLoaded name, BuilderCreated name] @ evs))))"

definition StartCluster :: "World \<Rightarrow> string \<Rightarrow> (string list \<Rightarrow> string list) list \<Rightarrow> opResult" where
  "StartCluster w name fn =
     (case ScaleOutLockedErr w name of
        Some err \<Rightarrow> (Some err, [LockChecked name])
      | None \<Rightarrow>
          (case metaFatal w name of
             Some err \<Rightarrow> (Some err, [LockChecked name, MetaLoaded name])
           | None \<Rightarrow>
               (case TLSConfigErr w name of
                  Some err \<Rightarrow> (Some err, [LockChecked name, MetaLoaded name, TLSConfigured name])
                | None \<Rightarrow>
                    (case sshTaskBuilder w name of
                       Inl err \<Rightarrow>
                         (Some err, [LockChecked name, MetaLoaded name, TLSConfigured name,
                                     BuilderCreated name])
                     | Inr b \<Rightarrow>
                         (let b1 = b @ [''StartCluster''];
                              b2 = fold (\<lambda>f b'. f b') fn b1
                          in case buildAndExecute w b2 of
                               (r, evs) \<Rightarrow>
                                 (r, [LockChecked name, MetaLoaded name, TLSConfigured name,
                                      BuilderCreated name] @ evs))))))"

text \<open>
  \<^verbatim>\<open>StopCluster\<close> and \<^verbatim>\<open>RestartCluster\<close> differ only in the name of the step they add and in
  the text of the prompt.
\<close>

definition stopOrRestart :: "string \<Rightarrow> World \<Rightarrow> string \<Rightarrow> bool \<Rightarrow> opResult" where
  "stopOrRestart stepName w name skipConfirm =
     (case ScaleOutLockedErr w name of
        Some err \<Rightarrow> (Some err, [LockChecked name])
      | None \<Rightarrow>
          (case metaFatal w name of
             Some err \<Rightarrow> (Some err, [LockChecked name, MetaLoaded name])
           | None \<Rightarrow>
               (case TLSConfigErr w name of
                  Some err \<Rightarrow> (Some err, [LockChecked name, MetaLoaded name, TLSConfigured name])
                | None \<Rightarrow>
                    (let asked = (if \<not> skipConfirm then [Prompted] else []);
                         declined = (if \<not> skipConfirm then PromptForConfirmOrAbortError w else None);
                         pre = [LockChecked name, MetaLoaded name, TLSConfigured name] @ asked
                     in case declined of
                          Some err \<Rightarrow> (Some err, pre)
                        | None \<Rightarrow>
                            (case sshTaskBuilder w name of
                               Inl err \<Rightarrow> (Some err, pre @ [BuilderCreated name])
                             | Inr b \<Rightarrow>
                                 (case buildAndExecute w (b @ [stepName]) of
                                    (r, evs) \<Rightarrow> (r, pre @ [BuilderCreated name] @ evs)))))))"

definition StopCluster :: "World \<Rightarrow> string \<Rightarrow> bool \<Rightarrow> opResult" where
  "StopCluster = stopOrRestart ''StopCluster''"

definition RestartCluster :: "World \<Rightarrow> string \<Rightarrow> bool \<Rightarrow> opResult" where
  "RestartCluster = stopOrRestart ''RestartCluster''"

section \<open>The WaitFor module (pkg/cluster/module/wait_for.go)\<close>

subsection \<open>Errors, durations and formatting\<close>

text \<open>
  A \<^verbatim>\<open>time.Duration\<close> is a count of nanoseconds and a port is a Go \<^verbatim>\<open>int\<close>; both are
  modelled as \<^typ>\<open>int\<close>: no arithmetic of the module can overflow 64 bits on the
  values it is given (the only products are the constants of \<^verbatim>\<open>NewWaitFor\<close>).
\<close>

type_synonym Duration = int

definition Second :: Duration where
  "Second = 1000000000"

text \<open>
  Go errors are values. The module creates errors with \<^verbatim>\<open>errors.New\<close> and
  \<^verbatim>\<open>errors.Errorf\<close>, receives opaque errors from the Executor, and receives the timeout
  error of \<^verbatim>\<open>utils.Retry\<close>. An \<^verbatim>\<open>Errorf\<close> error is kept as its format string and its
  arguments: none of them wraps another error.
\<close>

datatype fmtArg = ArgInt int | ArgStr string | ArgDuration Duration

datatype error =
    ErrorsNew string
  | ErrorsErrorf string "fmtArg list"
  | ExecutorError string
  | RetryTimeout Duration

text \<open>\<^verbatim>\<open>fmt.Sprintf("%d", n)\<close> for a Go \<^verbatim>\<open>int\<close>: the decimal digits, with a leading minus sign.\<close>

definition digitChar :: "nat \<Rightarrow> char" where
  "digitChar d = ''0123456789'' ! d"

function showNat :: "nat \<Rightarrow> string" where
  "showNat n = (if n < 10 then [digitChar n] else showNat (n div 10) @ [digitChar (n mod 10)])"
  by pat_completeness auto
termination
  by (relation "measure id") auto

declare showNat.simps [simp del]

definition showInt :: "int \<Rightarrow> string" where
  "showInt i = (if i < 0 then CHR ''-'' # showNat (nat (- i)) else showNat (nat i))"

text \<open>\<^verbatim>\<open>bytes.Contains(b, subslice)\<close>: \<^verbatim>\<open>subslice\<close> occurs in \<^verbatim>\<open>b\<close> as a contiguous run of bytes.\<close>

fun Contains :: "string \<Rightarrow> string \<Rightarrow> bool" where
  "Contains [] subslice = (subslice = [])"
| "Contains (x # xs) subslice = (prefix subslice (x # xs) \<or> Contains xs subslice)"

subsection \<open>Configuration\<close>

record WaitForConfig =
  Port :: int
  Sleep :: Duration
  State :: string
  Timeout :: Duration
  OS :: string

datatype WaitFor = WaitFor (cfg: WaitForConfig)

text \<open>
  Modelled from the spec: the constants \<^verbatim>\<open>MacOS\<close> and \<^verbatim>\<open>Linux\<close> of the module package are
  declared outside wait_for.go; the spec gives the two values of the \<^verbatim>\<open>OS\<close> field as
  "linux" and "darwin".
\<close>

definition MacOS :: string where
  "MacOS = ''darwin''"

definition Linux :: string where
  "Linux = ''linux''"

definition NewWaitFor :: "WaitForConfig \<Rightarrow> WaitFor" where
  "NewWaitFor c =
     (let c1 = (if Sleep c = 0 then c\<lparr>Sleep := Second\<rparr> else c);
          c2 = (if WaitForConfig.Timeout c1 = 0 then c1\<lparr>WaitForConfig.Timeout := Second * 60\<rparr> else c1);
          c3 = (if State c2 = '''' then c2\<lparr>State := ''started''\<rparr> else c2)
      in WaitFor c3)"

subsection \<open>The Executor and the retry engine\<close>

text \<open>
  \<^verbatim>\<open>Executor.Execute(ctx, cmd, sudo)\<close> returns stdout, stderr and an error. The module
  drops stderr and always passes \<^verbatim>\<open>sudo = false\<close>. An Executor is modelled by its answers:
  the answer to its \<open>k\<close>-th invocation (counted from 0) on a command is the pair of the
  stdout bytes and the error (\<^term>\<open>None\<close> is \<^verbatim>\<open>nil\<close>).
\<close>

type_synonym Executor = "nat \<Rightarrow> string \<Rightarrow> string \<times> error option"

record RetryOption =
  Delay :: Duration
  Timeout :: Duration

text \<open>
  What a retry loop did: the error it returned, how many times the operation (hence the
  Executor) was invoked, and the time spent sleeping between attempts.
\<close>

record outcome =
  result :: "error option"
  calls :: nat
  elapsed :: Duration

text \<open>The error by which the polling closures report that the port is not yet in the wanted state.\<close>

definition stillWaiting :: error where
  "stillWaiting = ErrorsNew ''still waiting for port state to be satisfied''"

definition isNotYet :: "error \<Rightarrow> bool" where
  "isNotYet e = (e = stillWaiting)"

text \<open>
  Modelled from the spec: \<^verbatim>\<open>utils.Retry\<close> (pkg/utils) is not part of the sources at hand.
  The spec: it repeatedly invokes the operation (which returns nil on success, or a
  sentinel "not yet" error, or a hard error), separated by the delay, until either the
  operation returns nil (success), a hard non-retryable error propagates immediately, or
  the elapsed time exceeds the timeout (a timeout error is returned). The loop state is
  the index of the next attempt and the time elapsed so far; sleeping a non-positive
  delay takes no time. The loop need not end (a never-satisfied operation with a
  non-positive delay), so the function is partial: \<^term>\<open>None\<close> stands for not returning.
\<close>

partial_function (option) retryFrom ::
  "(nat \<Rightarrow> error option) \<Rightarrow> RetryOption \<Rightarrow> nat \<Rightarrow> Duration \<Rightarrow> outcome option" where
  "retryFrom operation opt n t =
     (case operation n of
        None \<Rightarrow> Some \<lparr>result = None, calls = Suc n, elapsed = t\<rparr>
      | Some e \<Rightarrow>
          if \<not> isNotYet e then Some \<lparr>result = Some e, calls = Suc n, elapsed = t\<rparr>
          else if RetryOption.Timeout opt < t
            then Some \<lparr>result = Some (RetryTimeout (RetryOption.Timeout opt)), calls = Suc n, elapsed = t\<rparr>
          else retryFrom operation opt (Suc n) (t + max 0 (Delay opt)))"

definition Retry :: "(nat \<Rightarrow> error option) \<Rightarrow> RetryOption \<Rightarrow> outcome option" where
  "Retry operation opt = retryFrom operation opt 0 0"

subsection \<open>The polling closures\<close>

text \<open>
  The closure of \<^verbatim>\<open>waitForLinux\<close>, applied to the answer of the Executor. In the Go
  \<^verbatim>\<open>switch\<close>, the \<^verbatim>\<open>"started"\<close> case ends with \<^verbatim>\<open>fallthrough\<close>: when its own test fails,
  control enters the body of the \<^verbatim>\<open>"stopped"\<close> case. A state that is neither of the two
  matches no case, and the closure returns \<^verbatim>\<open>err\<close>, which is nil there.
\<close>

definition linuxPattern :: "WaitFor \<Rightarrow> string" where
  "linuxPattern w = '':'' @ showInt (Port (cfg w)) @ '' ''"

definition linuxCmd :: string where
  "linuxCmd = ''ss -ltn''"

definition linuxStoppedBody :: "string \<Rightarrow> string \<Rightarrow> error option" where
  "linuxStoppedBody stdout pattern =
     (if \<not> Contains stdout pattern then None else Some stillWaiting)"

definition linuxPoll :: "WaitFor \<Rightarrow> string \<times> error option \<Rightarrow> error option" where
  "linuxPoll w answer =
     (case answer of
        (stdout, Some err) \<Rightarrow> Some err
      | (stdout, None) \<Rightarrow>
          if State (cfg w) = ''started''
            then (if Contains stdout (linuxPattern w) then None
                  else linuxStoppedBody stdout (linuxPattern w))
          else if State (cfg w) = ''stopped''
            then linuxStoppedBody stdout (linuxPattern w)
          else None)"

definition waitForLinux :: "WaitFor \<Rightarrow> Executor \<Rightarrow> RetryOption \<Rightarrow> outcome option" where
  "waitForLinux w e retryOpt = Retry (\<lambda>k. linuxPoll w (e k linuxCmd)) retryOpt"

text \<open>
  The closure of \<^verbatim>\<open>waitForMacOS\<close>. The command and the pattern depend on the wanted state;
  here the body of the \<^verbatim>\<open>"stopped"\<close> case, which \<^verbatim>\<open>"started"\<close> falls through to, tests for the
  presence of the pattern.
\<close>

definition macCmd :: "WaitFor \<Rightarrow> string" where
  "macCmd w =
     (if State (cfg w) = ''stopped''
      then ''launchctl list | grep pingcap | grep '' @ showInt (Port (cfg w))
      else ''lsof -i:'' @ showInt (Port (cfg w)))"

definition macPattern :: "WaitFor \<Rightarrow> string" where
  "macPattern w = (if State (cfg w) = ''stopped'' then ''-'' else ''LISTEN'')"

definition macStoppedBody :: "string \<Rightarrow> string \<Rightarrow> error option" where
  "macStoppedBody stdout pattern =
     (if Contains stdout pattern then None else Some stillWaiting)"

definition macPoll :: "WaitFor \<Rightarrow> string \<times> error option \<Rightarrow> error option" where
  "macPoll w answer =
     (case answer of
        (stdout, Some err) \<Rightarrow> Some err
      | (stdout, None) \<Rightarrow>
          if State (cfg w) = ''started''
            then (if Contains stdout (macPattern w) then None
                  else macStoppedBody stdout (macPattern w))
          else if State (cfg w) = ''stopped''
            then macStoppedBody stdout (macPattern w)
          else None)"

definition waitForMacOS :: "WaitFor \<Rightarrow> Executor \<Rightarrow> RetryOption \<Rightarrow> outcome option" where
  "waitForMacOS w e retryOpt = Retry (\<lambda>k. macPoll w (e k (macCmd w))) retryOpt"

subsection \<open>Execute\<close>

text \<open>
  What \<^verbatim>\<open>Execute\<close> did: the error it returned, the number of Executor invocations, the
  time slept, and the errors it wrote to the debug log.
\<close>

record report =
  ret :: "error option"
  polls :: nat
  waited :: Duration
  debugLog :: "error list"

definition timedOut :: "WaitFor \<Rightarrow> error" where
  "timedOut w =
     ErrorsErrorf ''timed out waiting for port %d to be %s after %s''
       [ArgInt (Port (cfg w)), ArgStr (State (cfg w)), ArgDuration (WaitForConfig.Timeout (cfg w))]"

text \<open>The \<^verbatim>\<open>switch\<close> of \<^verbatim>\<open>Execute\<close> on the \<^verbatim>\<open>OS\<close> field; it has no default case, and \<^verbatim>\<open>err\<close> is nil before it.\<close>

definition waitForOS :: "WaitFor \<Rightarrow> Executor \<Rightarrow> RetryOption \<Rightarrow> outcome option" where
  "waitForOS w e retryOpt =
     (if OS (cfg w) = MacOS then waitForMacOS w e retryOpt
      else if OS (cfg w) = Linux then waitForLinux w e retryOpt
      else Some \<lparr>result = None, calls = 0, elapsed = 0\<rparr>)"

definition Execute :: "WaitFor \<Rightarrow> Executor \<Rightarrow> report option" where
  "Execute w e =
     (let retryOpt = \<lparr>Delay = Sleep (cfg w), RetryOption.Timeout = WaitForConfig.Timeout (cfg w)\<rparr>
      in case waitForOS w e retryOpt of
           None \<Rightarrow> None
         | Some out \<Rightarrow>
             (case result out of
                Some err \<Rightarrow>
                  Some \<lparr>ret = Some (timedOut w), polls = calls out, waited = elapsed out,
                        debugLog = [err]\<rparr>
              | None \<Rightarrow>
                  Some \<lparr>ret = None, polls = calls out, waited = elapsed out, debugLog = []\<rparr>))"

text \<open>
  \<^verbatim>\<open>utils.Retry\<close> is not part of the sources at hand. \<open>ExecuteWith\<close> is \<^verbatim>\<open>Execute\<close> with the retry
  engine left open: the same code, with any function \<open>retry\<close> in the place where
  \<^verbatim>\<open>waitForLinux\<close> and \<^verbatim>\<open>waitForMacOS\<close> call \<^verbatim>\<open>utils.Retry\<close> on their closure and the retry
  options.
\<close>

type_synonym RetryEngine = "(nat \<Rightarrow> error option) \<Rightarrow> RetryOption \<Rightarrow> outcome option"

definition waitForOSWith :: "RetryEngine \<Rightarrow> WaitFor \<Rightarrow> Executor \<Rightarrow> RetryOption \<Rightarrow> outcome option" where
  "waitForOSWith retry w e retryOpt =
     (if OS (cfg w) = MacOS then retry (\<lambda>k. macPoll w (e k (macCmd w))) retryOpt
      else if OS (cfg w) = Linux then retry (\<lambda>k. linuxPoll w (e k linuxCmd)) retryOpt
      else Some \<lparr>result = None, calls = 0, elapsed = 0\<rparr>)"

definition ExecuteWith :: "RetryEngine \<Rightarrow> WaitFor \<Rightarrow> Executor \<Rightarrow> report option" where
  "ExecuteWith retry w e =
     (let retryOpt = \<lparr>Delay = Sleep (cfg w), RetryOption.Timeout = WaitForConfig.Timeout (cfg w)\<rparr>
      in case waitForOSWith retry w e retryOpt of
           None \<Rightarrow> None
         | Some out \<Rightarrow>
             (case result out of
                Some err \<Rightarrow>
                  Some \<lparr>ret = Some (timedOut w), polls = calls out, waited = elapsed out,
                        debugLog = [err]\<rparr>
              | None \<Rightarrow>
                  Some \<lparr>ret = None, polls = calls out, waited = elapsed out, debugLog = []\<rparr>))"

section \<open>Notions used to state the properties of the calculator\<close>

definition entry :: "(string \<rightharpoonup> string set) \<Rightarrow> string \<Rightarrow> string set" where
  "entry m host = (case m host of None \<Rightarrow> {} | Some s \<Rightarrow> s)"

definition ignoredExporter :: "Env \<Rightarrow> Instance \<Rightarrow> bool" where
  "ignoredExporter L ins =
     ((ComponentName ins = ComponentNodeExporter L \<or> ComponentName ins = ComponentBlackboxExporter L)
      \<and> IgnoreMonitorAgent ins)"

definition dataRetained :: "cleanUpFiles \<Rightarrow> Instance \<Rightarrow> bool" where
  "dataRetained c ins =
     (ComponentName ins \<in> set (retainDataRoles c)
      \<or> ID ins \<in> set (retainDataNodes c) \<or> GetHost ins \<in> set (retainDataNodes c))"

definition instanceDataPaths :: "Env \<Rightarrow> cleanUpFiles \<Rightarrow> Instance \<Rightarrow> string set" where
  "instanceDataPaths L c ins =
     (if cleanupData c \<and> Instance.DataDir ins \<noteq> []
      then (\<lambda>dataDir. pathJoin L dataDir ''*'') ` set (Split (Instance.DataDir ins) CHR '','')
      else {})"

definition instanceLogPaths :: "Env \<Rightarrow> cleanUpFiles \<Rightarrow> Instance \<Rightarrow> string set" where
  "instanceLogPaths L c ins =
     (if cleanupLog c \<and> Instance.LogDir ins \<noteq> []
      then (\<lambda>logDir. pathJoin L logDir ''*.log'') ` set (Split (Instance.LogDir ins) CHR '','')
      else {})"

definition instanceTLSDir :: "Env \<Rightarrow> BaseTopo \<Rightarrow> Instance \<Rightarrow> string" where
  "instanceTLSDir L base ins =
     filepathJoin L (specAbs L (User (GlobalOptions base)) (Instance.DeployDir ins)) (TLSCertKeyDir L)"

definition instanceTLSPath :: "Env \<Rightarrow> BaseTopo \<Rightarrow> cleanUpFiles \<Rightarrow> Instance \<Rightarrow> string set" where
  "instanceTLSPath L base c ins =
     (if cleanupTLS c \<and> \<not> TLSEnabled (GlobalOptions base) then {instanceTLSDir L base ins} else {})"

definition instancePaths :: "Env \<Rightarrow> BaseTopo \<Rightarrow> cleanUpFiles \<Rightarrow> Instance \<Rightarrow> string set" where
  "instancePaths L base c ins =
     instanceLogPaths L c ins \<union> instanceDataPaths L c ins \<union> instanceTLSPath L base c ins"

definition monitorPaths :: "Env \<Rightarrow> BaseTopo \<Rightarrow> MonitoredOptions \<Rightarrow> cleanUpFiles \<Rightarrow> string set" where
  "monitorPaths L base mo c =
     (let user = User (GlobalOptions base);
          deployDir = specAbs L user (MonitoredOptions.DeployDir mo);
          dataDir = MonitoredOptions.DataDir mo;
          logDir = specAbs L user (MonitoredOptions.LogDir mo)
      in (if cleanupLog c \<and> logDir \<noteq> [] then {pathJoin L logDir ''*.log''} else {})
         \<union> (if cleanupData c \<and> dataDir \<noteq> []
              then {pathJoin L
                      (if \<not> prefix ''/'' dataDir then filepathJoin L deployDir dataDir else dataDir)
                      ''*''}
              else {})
         \<union> (if cleanupTLS c \<and> \<not> TLSEnabled (GlobalOptions base)
              then {filepathJoin L deployDir (TLSCertKeyDir L)} else {}))"

definition contributes :: "Env \<Rightarrow> cleanUpFiles \<Rightarrow> Instance \<Rightarrow> bool" where
  "contributes L c ins = (\<not> ignoredExporter L ins \<and> \<not> dataRetained c ins)"

definition monitorCleaned :: "string set \<Rightarrow> cleanUpFiles \<Rightarrow> string \<Rightarrow> bool" where
  "monitorCleaned noAgentHosts c host = (host \<notin> noAgentHosts \<and> host \<notin> set (retainDataNodes c))"

text \<open>One step of a loop that joins the paths \<open>p x\<close> into the entry of the host \<open>k x\<close> when \<open>P x\<close> holds.\<close>

definition joinStep ::
  "('a \<Rightarrow> bool) \<Rightarrow> ('a \<Rightarrow> string) \<Rightarrow> ('a \<Rightarrow> string set) \<Rightarrow> 'a
     \<Rightarrow> (string \<rightharpoonup> string set) \<Rightarrow> (string \<rightharpoonup> string set)" where
  "joinStep P k p x m = (if P x then m(k x \<mapsto> entry m (k x) \<union> p x) else m)"

text \<open>
  The cleanup path map as a function of the set of instances alone: the entry of a host
  is the union of the paths of the instances on it that are neither skipped nor retained,
  and of the paths of the monitoring agent when the host has one and is not retained.
\<close>

definition cleanupSpec ::
  "Env \<Rightarrow> BaseTopo \<Rightarrow> cleanUpFiles \<Rightarrow> Instance set \<Rightarrow> string \<Rightarrow> string set option" where
  "cleanupSpec L base c insts host =
     (let contributing = {i \<in> insts. contributes L c i \<and> GetHost i = host};
          fromInstances = (\<Union>i\<in>contributing. instancePaths L base c i);
          monitored = (case MonitoredOptions base of
                         None \<Rightarrow> None
                       | Some mo \<Rightarrow>
                           if host \<in> GetHost ` insts
                              \<and> host \<notin> GetHost ` {i \<in> insts. IgnoreMonitorAgent i}
                              \<and> host \<notin> set (retainDataNodes c)
                           then Some (monitorPaths L base mo c) else None)
      in case monitored of
           Some ps \<Rightarrow> Some (fromInstances \<union> ps)
         | None \<Rightarrow> if contributing = {} then None else Some fromInstances)"

definition withoutRetained :: "string list \<Rightarrow> string list \<Rightarrow> Topology \<Rightarrow> Topology" where
  "withoutRetained roles nodes topo =
     topo\<lparr>ComponentsByStartOrder :=
            map (\<lambda>com. com\<lparr>Instances :=
                   filter (\<lambda>ins. ComponentName ins \<notin> set roles \<and> ID ins \<notin> set nodes
                                  \<and> GetHost ins \<notin> set nodes) (Instances com)\<rparr>)
              (ComponentsByStartOrder topo)\<rparr>"

section \<open>Example inputs\<close>

text \<open>
  Stand-ins for the functions and constants of other packages, and small topologies,
  executors and worlds, on which the results below are evaluated.
\<close>

definition exampleEnv :: Env where
  "exampleEnv =
     \<lparr>pathJoin = (\<lambda>dir name. dir @ ''/'' @ name),
      filepathJoin = (\<lambda>dir name. dir @ ''/'' @ name),
      specAbs = (\<lambda>user p. if prefix ''/'' p then p else ''/home/'' @ user @ ''/'' @ p),
      TLSCertKeyDir = ''tls'',
      ComponentNodeExporter = ''node_exporter'',
      ComponentBlackboxExporter = ''blackbox_exporter''\<rparr>"

definition exampleInstance :: "string \<Rightarrow> string \<Rightarrow> string \<Rightarrow> string \<Rightarrow> bool \<Rightarrow> Instance" where
  "exampleInstance role host dataDir logDir ignoreAgent =
     \<lparr>ComponentName = role, ID = host @ '':'' @ role, GetHost = host, GetSSHPort = 22,
      Instance.OS = ''linux'', Arch = ''amd64'', Instance.DataDir = dataDir,
      Instance.LogDir = logDir, Instance.DeployDir = ''deploy/'' @ role, IgnoreMonitorAgent = ignoreAgent\<rparr>"

definition exampleBase :: BaseTopo where
  "exampleBase =
     \<lparr>GlobalOptions = \<lparr>User = ''tidb'', TLSEnabled = False\<rparr>, MonitoredOptions = None\<rparr>"

definition monitoredBase :: BaseTopo where
  "monitoredBase =
     \<lparr>GlobalOptions = \<lparr>User = ''tidb'', TLSEnabled = False\<rparr>,
      MonitoredOptions =
        Some \<lparr>MonitoredOptions.DeployDir = ''monitor'', MonitoredOptions.DataDir = ''data'',
              MonitoredOptions.LogDir = ''monitor/log''\<rparr>\<rparr>"

definition tikvFirst :: Topology where
  "tikvFirst =
     \<lparr>ComponentsByStartOrder =
        [\<lparr>Name = ''tikv'', Instances = [exampleInstance ''tikv'' ''10.0.0.1'' ''/data/tikv'' ''/log/tiup,/log/tikv'' False]\<rparr>,
         \<lparr>Name = ''tidb'', Instances = [exampleInstance ''tidb'' ''10.0.0.1'' '''' ''/log/tiup'' False]\<rparr>,
         \<lparr>Name = ''pd'', Instances = [exampleInstance ''pd'' ''10.0.0.2'' ''/data/pd'' '''' False]\<rparr>],
      BaseTopo = monitoredBase\<rparr>"

definition tidbFirst :: Topology where
  "tidbFirst =
     \<lparr>ComponentsByStartOrder =
        [\<lparr>Name = ''pd'', Instances = [exampleInstance ''pd'' ''10.0.0.2'' ''/data/pd'' '''' False]\<rparr>,
         \<lparr>Name = ''tidb'', Instances = [exampleInstance ''tidb'' ''10.0.0.1'' '''' ''/log/tiup'' False]\<rparr>,
         \<lparr>Name = ''tikv'', Instances = [exampleInstance ''tikv'' ''10.0.0.1'' ''/data/tikv'' ''/log/tiup,/log/tikv'' False]\<rparr>],
      BaseTopo = monitoredBase\<rparr>"

definition exporterOnly :: Topology where
  "exporterOnly =
     \<lparr>ComponentsByStartOrder =
        [\<lparr>Name = ''node_exporter'',
          Instances = [exampleInstance ''node_exporter'' ''10.0.0.9'' '''' '''' True]\<rparr>],
      BaseTopo = exampleBase\<rparr>"

definition retainedTikv :: Topology where
  "retainedTikv =
     \<lparr>ComponentsByStartOrder =
        [\<lparr>Name = ''tikv'', Instances = [exampleInstance ''tikv'' ''10.0.0.1'' ''/data/tikv'' ''/log/tikv'' False]\<rparr>,
         \<lparr>Name = ''tidb'', Instances = [exampleInstance ''tidb'' ''10.0.0.2'' ''/data/tidb'' ''/log/tidb'' False]\<rparr>],
      BaseTopo = exampleBase\<rparr>"

definition tlsFlags :: "bool \<Rightarrow> cleanUpFiles" where
  "tlsFlags cleanTLS =
     \<lparr>cleanupData = False, cleanupLog = False, cleanupTLS = cleanTLS,
      retainDataRoles = [], retainDataNodes = [], delFileMap = Map.empty\<rparr>"

text \<open>A world in which a scale-out holds the lock of every cluster and nothing else fails.\<close>

definition lockedWorld :: World where
  "lockedWorld =
     \<lparr>ScaleOutLockedErr = (\<lambda>name. Some (LockedErr name)),
      metaErr = (\<lambda>name. None),
      TLSConfigErr = (\<lambda>name. None),
      PromptForConfirmOrAbortError = None,
      sshTaskBuilder = (\<lambda>name. Inr []),
      operatorResult = (\<lambda>step. None),
      errorxCast = (\<lambda>err. True)\<rparr>"

definition sshOnlyExecutor :: Executor where
  "sshOnlyExecutor k cmd = (''LISTEN 0 128 0.0.0.0:22 0.0.0.0:*'', None)"

definition refusingExecutor :: Executor where
  "refusingExecutor k cmd = ('''', Some (ExecutorError ''connection refused''))"

text \<open>A stand-in for a retry engine: it invokes the operation once and returns what it returned.\<close>

definition tryOnce :: RetryEngine where
  "tryOnce operation opt = Some \<lparr>result = operation 0, calls = 1, elapsed = 0\<rparr>"

section \<open>Properties of the WaitFor module\<close>

lemma Contains_iff: "Contains b s \<longleftrightarrow> (\<exists>ps ss. b = ps @ s @ ss)"
proof (induction b)
  case Nil
  then show ?case by auto
next
  case (Cons x xs)
  show ?case
  proof
    assume "Contains (x # xs) s"
    then consider "prefix s (x # xs)" | "Contains xs s" by auto
    then show "\<exists>ps ss. x # xs = ps @ s @ ss"
    proof cases
      case 1
      then obtain ss where "x # xs = s @ ss" by (auto simp: prefix_def)
      then have "x # xs = [] @ s @ ss" by simp
      then show ?thesis by blast
    next
      case 2
      with Cons.IH obtain ps ss where "xs = ps @ s @ ss" by blast
      then have "x # xs = (x # ps) @ s @ ss" by simp
      then show ?thesis by blast
    qed
  next
    assume "\<exists>ps ss. x # xs = ps @ s @ ss"
    then obtain ps ss where eq: "x # xs = ps @ s @ ss" by blast
    show "Contains (x # xs) s"
    proof (cases ps)
      case Nil
      with eq have "prefix s (x # xs)" by (simp add: prefix_def)
      then show ?thesis by simp
    next
      case (Cons p ps')
      with eq have "xs = ps' @ s @ ss" by simp
      with Cons.IH have "Contains xs s" by blast
      then show ?thesis by simp
    qed
  qed
qed

text \<open>
  C9. \<^verbatim>\<open>NewWaitFor\<close> replaces a zero \<^verbatim>\<open>Sleep\<close> by one second, a zero \<^verbatim>\<open>Timeout\<close> by sixty
  seconds and an empty \<^verbatim>\<open>State\<close> by "started"; every other value, and the fields \<^verbatim>\<open>Port\<close>
  and \<^verbatim>\<open>OS\<close>, are kept as given.
\<close>

theorem NewWaitFor_defaults:
  "cfg (NewWaitFor c) =
     \<lparr>Port = Port c,
      Sleep = (if Sleep c = 0 then 1000000000 else Sleep c),
      State = (if State c = '''' then ''started'' else State c),
      WaitForConfig.Timeout =
        (if WaitForConfig.Timeout c = 0 then 60000000000 else WaitForConfig.Timeout c),
      OS = OS c\<rparr>"
  by (simp add: NewWaitFor_def Second_def Let_def)

theorem NewWaitFor_defaults_witness:
  "cfg (NewWaitFor \<lparr>Port = 4000, Sleep = 0, State = '''', WaitForConfig.Timeout = 0, OS = ''linux''\<rparr>) =
     \<lparr>Port = 4000, Sleep = 1000000000, State = ''started'',
      WaitForConfig.Timeout = 60000000000, OS = ''linux''\<rparr>
   \<and> cfg (NewWaitFor \<lparr>Port = 4000, Sleep = 5, State = ''stopped'', WaitForConfig.Timeout = 7, OS = ''darwin''\<rparr>) =
     \<lparr>Port = 4000, Sleep = 5, State = ''stopped'', WaitForConfig.Timeout = 7, OS = ''darwin''\<rparr>"
  using NewWaitFor_defaults [of "\<lparr>Port = 4000, Sleep = 0, State = '''', WaitForConfig.Timeout = 0, OS = ''linux''\<rparr>"]
    NewWaitFor_defaults [of "\<lparr>Port = 4000, Sleep = 5, State = ''stopped'', WaitForConfig.Timeout = 7, OS = ''darwin''\<rparr>"]
  by simp

text \<open>
  C10. When the \<^verbatim>\<open>OS\<close> field is neither "linux" nor "darwin", \<^verbatim>\<open>Execute\<close> returns nil at
  once: the Executor is never invoked, no time is spent and nothing is logged, whatever
  the port, the state and the timeout are.
\<close>

theorem Execute_unknown_OS:
  assumes "OS (cfg w) \<noteq> ''linux''" and "OS (cfg w) \<noteq> ''darwin''"
  shows "Execute w e = Some \<lparr>ret = None, polls = 0, waited = 0, debugLog = []\<rparr>"
  using assms by (simp add: Execute_def waitForOS_def MacOS_def Linux_def)

theorem Execute_unknown_OS_witness:
  "Execute (WaitFor \<lparr>Port = 4000, Sleep = 1, State = ''started'', WaitForConfig.Timeout = 5, OS = ''freebsd''\<rparr>)
     (\<lambda>k cmd. ('''', Some (ExecutorError ''unreachable'')))
   = Some \<lparr>ret = None, polls = 0, waited = 0, debugLog = []\<rparr>"
  by (rule Execute_unknown_OS) simp_all

subsection \<open>The retry loop and the polling closures\<close>

lemma linuxPoll_started_nil:
  "State (cfg w) = ''started'' \<Longrightarrow> linuxPoll w (stdout, None) = None"
  by (simp add: linuxPoll_def linuxStoppedBody_def)

lemma retryFrom_success:
  "operation n = None \<Longrightarrow>
   retryFrom operation opt n t = Some \<lparr>result = None, calls = Suc n, elapsed = t\<rparr>"
  by (subst retryFrom.simps) simp

lemma retryFrom_hard:
  "operation n = Some err \<Longrightarrow> \<not> isNotYet err \<Longrightarrow>
   retryFrom operation opt n t = Some \<lparr>result = Some err, calls = Suc n, elapsed = t\<rparr>"
  by (subst retryFrom.simps) simp

lemma retryFrom_timeout:
  "operation n = Some stillWaiting \<Longrightarrow> RetryOption.Timeout opt < t \<Longrightarrow>
   retryFrom operation opt n t =
     Some \<lparr>result = Some (RetryTimeout (RetryOption.Timeout opt)), calls = Suc n, elapsed = t\<rparr>"
  by (subst retryFrom.simps) (simp add: isNotYet_def)

lemma retryFrom_again:
  "operation n = Some stillWaiting \<Longrightarrow> \<not> RetryOption.Timeout opt < t \<Longrightarrow>
   retryFrom operation opt n t = retryFrom operation opt (Suc n) (t + max 0 (Delay opt))"
  by (subst retryFrom.simps) (simp add: isNotYet_def)

text \<open>With a positive delay the retry loop returns, and so does \<^verbatim>\<open>Execute\<close>.\<close>

lemma retryFrom_returns:
  assumes "0 < Delay opt"
  shows "\<exists>out. retryFrom operation opt n t = Some out"
proof (induction "nat (RetryOption.Timeout opt - t + 1)" arbitrary: n t rule: less_induct)
  case less
  show ?case
  proof (cases "operation n")
    case None
    then show ?thesis by (simp add: retryFrom_success)
  next
    case (Some err)
    show ?thesis
    proof (cases "isNotYet err")
      case False
      with Some show ?thesis by (simp add: retryFrom_hard)
    next
      case True
      then have sw: "operation n = Some stillWaiting" using Some by (simp add: isNotYet_def)
      show ?thesis
      proof (cases "RetryOption.Timeout opt < t")
        case True
        with sw show ?thesis by (simp add: retryFrom_timeout)
      next
        case False
        with assms have "nat (RetryOption.Timeout opt - (t + max 0 (Delay opt)) + 1)
                          < nat (RetryOption.Timeout opt - t + 1)"
          by simp
        from less [OF this] obtain out where
          "retryFrom operation opt (Suc n) (t + max 0 (Delay opt)) = Some out" by blast
        with sw False show ?thesis by (simp add: retryFrom_again)
      qed
    qed
  qed
qed

lemma Execute_returns:
  assumes "0 < Sleep (cfg w)"
  shows "\<exists>r. Execute w e = Some r"
proof -
  let ?opt = "\<lparr>Delay = Sleep (cfg w), RetryOption.Timeout = WaitForConfig.Timeout (cfg w)\<rparr>"
  have d: "0 < Delay ?opt" using assms by simp
  have "\<exists>out. waitForOS w e ?opt = Some out"
    using retryFrom_returns [OF d]
    by (simp add: waitForOS_def waitForMacOS_def waitForLinux_def Retry_def)
  then obtain out where "waitForOS w e ?opt = Some out" by blast
  then show ?thesis
    by (cases "result out") (simp_all add: Execute_def)
qed

text \<open>
  C1 (the code departs from the claim). On Linux with the state "started", the closure
  returns nil for every answer of the Executor that carries no error, whether or not the
  output contains the pattern: when the pattern is absent, \<^verbatim>\<open>fallthrough\<close> enters the body of
  the "stopped" case, whose test (pattern absent) then succeeds. Here \<^verbatim>\<open>Execute\<close> on port
  4000 returns nil after a single poll whose output does not contain ":4000 ".
\<close>

theorem Execute_linux_started_without_match:
  "cfg (NewWaitFor \<lparr>Port = 4000, Sleep = 0, State = '''', WaitForConfig.Timeout = 0, OS = ''linux''\<rparr>) =
     \<lparr>Port = 4000, Sleep = 1000000000, State = ''started'',
      WaitForConfig.Timeout = 60000000000, OS = ''linux''\<rparr>
   \<and> sshOnlyExecutor 0 ''ss -ltn'' = (''LISTEN 0 128 0.0.0.0:22 0.0.0.0:*'', None)
   \<and> \<not> Contains ''LISTEN 0 128 0.0.0.0:22 0.0.0.0:*'' '':4000 ''
   \<and> linuxPoll (NewWaitFor \<lparr>Port = 4000, Sleep = 0, State = '''', WaitForConfig.Timeout = 0, OS = ''linux''\<rparr>)
         (''LISTEN 0 128 0.0.0.0:22 0.0.0.0:*'', None) = None
   \<and> Execute (NewWaitFor \<lparr>Port = 4000, Sleep = 0, State = '''', WaitForConfig.Timeout = 0, OS = ''linux''\<rparr>)
         sshOnlyExecutor
       = Some \<lparr>ret = None, polls = 1, waited = 0, debugLog = []\<rparr>"
  by (simp add: Execute_def waitForOS_def NewWaitFor_def Let_def MacOS_def Linux_def waitForLinux_def
      Retry_def retryFrom_success linuxPoll_started_nil sshOnlyExecutor_def Second_def)

text \<open>
  C6. With the state "stopped", a poll of the Linux closure returns nil exactly when the
  Executor answered without error and the output does not contain ":<port> "; a poll of
  the macOS closure returns nil exactly when the Executor answered without error and the
  output contains "-". Whenever the Executor answered without error and the poll does not
  return nil, it returns the "still waiting" error, the closure's answer for "not yet".
\<close>

theorem stopped_poll:
  assumes "State (cfg w) = ''stopped''"
  shows "(linuxPoll w (stdout, err) = None \<longleftrightarrow>
            err = None \<and> \<not> Contains stdout ('':'' @ showInt (Port (cfg w)) @ '' ''))
       \<and> (macPoll w (stdout, err) = None \<longleftrightarrow> err = None \<and> Contains stdout ''-'')
       \<and> (err = None \<and> linuxPoll w (stdout, err) \<noteq> None \<longrightarrow>
            linuxPoll w (stdout, err) = Some stillWaiting)
       \<and> (err = None \<and> macPoll w (stdout, err) \<noteq> None \<longrightarrow>
            macPoll w (stdout, err) = Some stillWaiting)"
  using assms
  by (cases err)
     (simp_all add: linuxPoll_def linuxStoppedBody_def linuxPattern_def macPoll_def
        macStoppedBody_def macPattern_def)

theorem stopped_poll_witness:
  "linuxPoll (WaitFor \<lparr>Port = 22, Sleep = 1, State = ''stopped'', WaitForConfig.Timeout = 2, OS = ''linux''\<rparr>)
     (''LISTEN 0 128 0.0.0.0:80 0.0.0.0:*'', None) = None
   \<and> linuxPoll (WaitFor \<lparr>Port = 22, Sleep = 1, State = ''stopped'', WaitForConfig.Timeout = 2, OS = ''linux''\<rparr>)
     (''LISTEN 0 128 0.0.0.0:22 0.0.0.0:*'', None) = Some stillWaiting
   \<and> macPoll (WaitFor \<lparr>Port = 22, Sleep = 1, State = ''stopped'', WaitForConfig.Timeout = 2, OS = ''darwin''\<rparr>)
     (''- 0 com.pingcap.tidb.22'', None) = None
   \<and> macPoll (WaitFor \<lparr>Port = 22, Sleep = 1, State = ''stopped'', WaitForConfig.Timeout = 2, OS = ''darwin''\<rparr>)
     (''4242 0 com.pingcap.tidb.22'', None) = Some stillWaiting"
proof -
  let ?l = "WaitFor \<lparr>Port = 22, Sleep = 1, State = ''stopped'', WaitForConfig.Timeout = 2, OS = ''linux''\<rparr>"
  let ?m = "WaitFor \<lparr>Port = 22, Sleep = 1, State = ''stopped'', WaitForConfig.Timeout = 2, OS = ''darwin''\<rparr>"
  have l: "State (cfg ?l) = ''stopped''" and m: "State (cfg ?m) = ''stopped''" by simp_all
  have p: "'':'' @ showInt (Port (cfg ?l)) @ '' '' = '':22 ''"
    by (simp add: showInt_def showNat.simps digitChar_def)
  show ?thesis
    using stopped_poll [OF l, of "''LISTEN 0 128 0.0.0.0:80 0.0.0.0:*''" None]
      stopped_poll [OF l, of "''LISTEN 0 128 0.0.0.0:22 0.0.0.0:*''" None]
      stopped_poll [OF m, of "''- 0 com.pingcap.tidb.22''" None]
      stopped_poll [OF m, of "''4242 0 com.pingcap.tidb.22''" None]
    unfolding p by simp
qed

text \<open>
  C5. Whenever the wait of \<^verbatim>\<open>Execute\<close> returns an error \<open>raw\<close> (the timeout error of the retry
  loop, or an error of a detection poll), \<^verbatim>\<open>Execute\<close> returns the error formatted from the
  port, the wanted state and the timeout of the configuration, which holds no other
  error; \<open>raw\<close> goes to the debug log only.
\<close>

theorem Execute_failure_message:
  assumes "waitForOS w e \<lparr>Delay = Sleep (cfg w), RetryOption.Timeout = WaitForConfig.Timeout (cfg w)\<rparr> = Some out"
    and "result out = Some raw"
  shows "Execute w e =
     Some \<lparr>ret = Some (ErrorsErrorf ''timed out waiting for port %d to be %s after %s''
              [ArgInt (Port (cfg w)), ArgStr (State (cfg w)),
               ArgDuration (WaitForConfig.Timeout (cfg w))]),
           polls = calls out, waited = elapsed out, debugLog = [raw]\<rparr>"
  using assms by (simp add: Execute_def timedOut_def)

theorem Execute_failure_message_witness:
  "Execute (WaitFor \<lparr>Port = 22, Sleep = 1, State = ''stopped'', WaitForConfig.Timeout = 2, OS = ''linux''\<rparr>)
     sshOnlyExecutor =
   Some \<lparr>ret = Some (ErrorsErrorf ''timed out waiting for port %d to be %s after %s''
              [ArgInt 22, ArgStr ''stopped'', ArgDuration 2]),
         polls = 4, waited = 3, debugLog = [RetryTimeout 2]\<rparr>"
proof -
  let ?w = "WaitFor \<lparr>Port = 22, Sleep = 1, State = ''stopped'', WaitForConfig.Timeout = 2, OS = ''linux''\<rparr>"
  have poll: "linuxPoll ?w (''LISTEN 0 128 0.0.0.0:22 0.0.0.0:*'', None) = Some stillWaiting"
    by (simp add: linuxPoll_def linuxStoppedBody_def linuxPattern_def showInt_def
        showNat.simps digitChar_def)
  have run: "waitForOS ?w sshOnlyExecutor \<lparr>Delay = Sleep (cfg ?w), RetryOption.Timeout = WaitForConfig.Timeout (cfg ?w)\<rparr>
      = Some \<lparr>result = Some (RetryTimeout 2), calls = 4, elapsed = 3\<rparr>"
    by (simp add: waitForOS_def MacOS_def Linux_def waitForLinux_def Retry_def poll
        retryFrom_again retryFrom_timeout sshOnlyExecutor_def)
  show ?thesis
    using Execute_failure_message [OF run] by simp
qed

lemma Execute_ExecuteWith: "Execute w e = ExecuteWith Retry w e"
proof -
  have "waitForOS w e opt = waitForOSWith Retry w e opt" for opt
    by (simp add: waitForOS_def waitForOSWith_def waitForMacOS_def waitForLinux_def cong: if_cong)
  then show ?thesis
    by (simp add: Execute_def ExecuteWith_def)
qed

text \<open>
  C2 (amended). A transport error of the Executor on a detection poll is what that poll
  returns to the retry engine, unchanged, on Linux and on macOS alike: the poll neither
  succeeds nor says "still waiting". Whatever the retry engine put in the place of
  \<^verbatim>\<open>utils.Retry\<close> does with it, the caller of \<^verbatim>\<open>Execute\<close> never receives the transport error:
  \<^verbatim>\<open>Execute\<close> returns nil or its own timed-out error naming port, state and timeout, and
  whenever the wait ends with an error, that error goes to the debug log and the caller
  gets the timed-out error.
\<close>

theorem transport_error_never_returned:
  assumes "ExecuteWith retry w e = Some r"
  shows "linuxPoll w (stdout, Some (ExecutorError msg)) = Some (ExecutorError msg)
       \<and> macPoll w (stdout, Some (ExecutorError msg)) = Some (ExecutorError msg)
       \<and> ret r \<noteq> Some (ExecutorError msg)
       \<and> (ret r = None
          \<or> ret r = Some (ErrorsErrorf ''timed out waiting for port %d to be %s after %s''
                [ArgInt (Port (cfg w)), ArgStr (State (cfg w)),
                 ArgDuration (WaitForConfig.Timeout (cfg w))]))
       \<and> (\<forall>out raw.
            waitForOSWith retry w e
              \<lparr>Delay = Sleep (cfg w), RetryOption.Timeout = WaitForConfig.Timeout (cfg w)\<rparr> = Some out
            \<and> result out = Some raw \<longrightarrow>
            ret r = Some (ErrorsErrorf ''timed out waiting for port %d to be %s after %s''
                [ArgInt (Port (cfg w)), ArgStr (State (cfg w)),
                 ArgDuration (WaitForConfig.Timeout (cfg w))])
            \<and> debugLog r = [raw])"
proof -
  let ?opt = "\<lparr>Delay = Sleep (cfg w), RetryOption.Timeout = WaitForConfig.Timeout (cfg w)\<rparr>"
  have polls: "linuxPoll w (stdout, Some (ExecutorError msg)) = Some (ExecutorError msg)"
    "macPoll w (stdout, Some (ExecutorError msg)) = Some (ExecutorError msg)"
    by (simp_all add: linuxPoll_def macPoll_def)
  from assms obtain out where out: "waitForOSWith retry w e ?opt = Some out"
    by (cases "waitForOSWith retry w e ?opt") (simp_all add: ExecuteWith_def)
  show ?thesis
  proof (cases "result out")
    case None
    with assms out have "r = \<lparr>ret = None, polls = calls out, waited = elapsed out, debugLog = []\<rparr>"
      by (simp add: ExecuteWith_def)
    with out None polls show ?thesis by simp
  next
    case (Some raw)
    with assms out have "r = \<lparr>ret = Some (timedOut w), polls = calls out, waited = elapsed out,
                               debugLog = [raw]\<rparr>"
      by (simp add: ExecuteWith_def)
    with out Some polls show ?thesis by (simp add: timedOut_def)
  qed
qed

theorem transport_error_never_returned_witness:
  "linuxPoll (WaitFor \<lparr>Port = 4000, Sleep = 1000000000, State = ''stopped'',
                       WaitForConfig.Timeout = 60000000000, OS = ''linux''\<rparr>)
     ('''', Some (ExecutorError ''connection refused'')) = Some (ExecutorError ''connection refused'')
   \<and> ExecuteWith tryOnce
       (WaitFor \<lparr>Port = 4000, Sleep = 1000000000, State = ''stopped'',
                 WaitForConfig.Timeout = 60000000000, OS = ''linux''\<rparr>)
       refusingExecutor =
     Some \<lparr>ret = Some (ErrorsErrorf ''timed out waiting for port %d to be %s after %s''
                [ArgInt 4000, ArgStr ''stopped'', ArgDuration 60000000000]),
           polls = 1, waited = 0, debugLog = [ExecutorError ''connection refused'']\<rparr>"
proof -
  let ?w = "WaitFor \<lparr>Port = 4000, Sleep = 1000000000, State = ''stopped'',
                      WaitForConfig.Timeout = 60000000000, OS = ''linux''\<rparr>"
  let ?r = "\<lparr>ret = Some (timedOut ?w), polls = 1, waited = 0,
             debugLog = [ExecutorError ''connection refused'']\<rparr>"
  have wait: "waitForOSWith tryOnce ?w refusingExecutor
      \<lparr>Delay = Sleep (cfg ?w), RetryOption.Timeout = WaitForConfig.Timeout (cfg ?w)\<rparr> =
      Some \<lparr>result = Some (ExecutorError ''connection refused''), calls = 1, elapsed = 0\<rparr>"
    by (simp add: waitForOSWith_def MacOS_def Linux_def tryOnce_def refusingExecutor_def
        linuxPoll_def)
  then have run: "ExecuteWith tryOnce ?w refusingExecutor = Some ?r"
    by (simp add: ExecuteWith_def)
  from transport_error_never_returned [OF run, of "''''" "''connection refused''"]
  have poll: "linuxPoll ?w ('''', Some (ExecutorError ''connection refused'')) =
                Some (ExecutorError ''connection refused'')"
    by (rule conjunct1)
  from poll run show ?thesis
    by (simp add: timedOut_def)
qed

text \<open>
  C2 as stated fails: the Executor answers every poll with a transport error, and the
  caller of \<^verbatim>\<open>Execute\<close> receives the timed-out error, which is not the transport error.
\<close>

theorem transport_error_not_propagated:
  "refusingExecutor 0 ''ss -ltn'' = ('''', Some (ExecutorError ''connection refused''))
   \<and> map_option ret
       (Execute
          (WaitFor \<lparr>Port = 4000, Sleep = 1000000000, State = ''stopped'',
                    WaitForConfig.Timeout = 60000000000, OS = ''linux''\<rparr>)
          refusingExecutor) =
     Some (Some (ErrorsErrorf ''timed out waiting for port %d to be %s after %s''
                   [ArgInt 4000, ArgStr ''stopped'', ArgDuration 60000000000]))
   \<and> ErrorsErrorf ''timed out waiting for port %d to be %s after %s''
        [ArgInt 4000, ArgStr ''stopped'', ArgDuration 60000000000]
      \<noteq> ExecutorError ''connection refused''"
  by (simp add: Execute_def waitForOS_def MacOS_def Linux_def waitForLinux_def Retry_def
      linuxPoll_def retryFrom_hard isNotYet_def stillWaiting_def timedOut_def refusingExecutor_def)

section \<open>Properties of the cleanup path calculator\<close>

lemma fold_insert_image: "fold (\<lambda>x s. insert (f x) s) xs S = f ` set xs \<union> S"
  by (induction xs arbitrary: S) auto

lemma joinInto_eq:
  "joinInto m host lp dp tp = m(host \<mapsto> entry m host \<union> (lp \<union> dp \<union> tp))"
  by (auto simp: joinInto_def entry_def Let_def split: option.splits)

lemma cleanupInstance_eq:
  "cleanupInstance L topo ins c =
     (if ignoredExporter L ins \<or> dataRetained c ins then c
      else c\<lparr>delFileMap := (delFileMap c)(GetHost ins \<mapsto>
              entry (delFileMap c) (GetHost ins) \<union> instancePaths L (BaseTopo topo) c ins)\<rparr>)"
proof (cases "ignoredExporter L ins")
  case True
  then show ?thesis
    by (simp add: cleanupInstance_def ignoredExporter_def Let_def)
next
  case notIgnored: False
  show ?thesis
  proof (cases "dataRetained c ins")
    case True
    then show ?thesis
      by (simp add: cleanupInstance_def dataRetained_def Let_def)
  next
    case False
    have dp: "(if cleanupData c \<and> length (Instance.DataDir ins) > 0
                then fold (\<lambda>dataDir s. insert (pathJoin L dataDir ''*'') s)
                       (Split (Instance.DataDir ins) CHR '','') {}
                else {}) = instanceDataPaths L c ins"
      by (simp add: instanceDataPaths_def fold_insert_image)
    have lp: "(if cleanupLog c \<and> length (Instance.LogDir ins) > 0
                then fold (\<lambda>logDir s. insert (pathJoin L logDir ''*.log'') s)
                       (Split (Instance.LogDir ins) CHR '','') {}
                else {}) = instanceLogPaths L c ins"
      by (simp add: instanceLogPaths_def fold_insert_image)
    have tp: "(if cleanupTLS c \<and> \<not> TLSEnabled (GlobalOptions (BaseTopo topo))
                then {filepathJoin L
                        (specAbs L (User (GlobalOptions (BaseTopo topo))) (Instance.DeployDir ins))
                        (TLSCertKeyDir L)}
                else {}) = instanceTLSPath L (BaseTopo topo) c ins"
      by (simp add: instanceTLSPath_def instanceTLSDir_def)
    have "cleanupInstance L topo ins c =
            c\<lparr>delFileMap := joinInto (delFileMap c) (GetHost ins) (instanceLogPaths L c ins)
                  (instanceDataPaths L c ins) (instanceTLSPath L (BaseTopo topo) c ins)\<rparr>"
      unfolding cleanupInstance_def Let_def dp lp tp
      using notIgnored False by (auto simp: ignoredExporter_def dataRetained_def)
    then show ?thesis
      using notIgnored False by (simp add: joinInto_eq instancePaths_def)
  qed
qed

lemma cleanupMonitorHost_eq:
  "cleanupMonitorHost L topo mo noAgentHosts host c =
     (if host \<in> noAgentHosts \<or> host \<in> set (retainDataNodes c) then c
      else c\<lparr>delFileMap := (delFileMap c)(host \<mapsto>
              entry (delFileMap c) host \<union> monitorPaths L (BaseTopo topo) mo c)\<rparr>)"
  by (simp add: cleanupMonitorHost_def Let_def joinInto_eq monitorPaths_def)

lemma fold_joinStep:
  "fold (joinStep P k p) xs m host =
     (if \<exists>x\<in>set xs. P x \<and> k x = host
      then Some (entry m host \<union> (\<Union>x\<in>{x \<in> set xs. P x \<and> k x = host}. p x))
      else m host)"
proof (induction xs arbitrary: m)
  case Nil
  then show ?case by simp
next
  case (Cons x xs)
  have step: "fold (joinStep P k p) (x # xs) m host = fold (joinStep P k p) xs (joinStep P k p x m) host"
    by simp
  show ?case
  proof (cases "P x \<and> k x = host")
    case True
    then have e: "entry (joinStep P k p x m) host = entry m host \<union> p x"
      and s: "joinStep P k p x m host = Some (entry m host \<union> p x)"
      by (simp_all add: entry_def joinStep_def)
    have u: "(\<Union>y\<in>{y \<in> set (x # xs). P y \<and> k y = host}. p y) =
             p x \<union> (\<Union>y\<in>{y \<in> set xs. P y \<and> k y = host}. p y)"
      using True by auto
    show ?thesis
      unfolding step Cons.IH e s u using True by auto
  next
    case False
    then have e: "entry (joinStep P k p x m) host = entry m host"
      and s: "joinStep P k p x m host = m host"
      by (auto simp: entry_def joinStep_def)
    have u: "{y \<in> set (x # xs). P y \<and> k y = host} = {y \<in> set xs. P y \<and> k y = host}"
      using False by auto
    show ?thesis
      unfolding step Cons.IH e s u using False by auto
  qed
qed

lemma dataRetained_delFileMap [simp]:
  "dataRetained (c\<lparr>delFileMap := m\<rparr>) ins = dataRetained c ins"
  by (simp add: dataRetained_def)

lemma contributes_delFileMap [simp]:
  "contributes L (c\<lparr>delFileMap := m\<rparr>) = contributes L c"
  by (simp add: fun_eq_iff contributes_def dataRetained_def)

lemma instancePaths_delFileMap [simp]:
  "instancePaths L base (c\<lparr>delFileMap := m\<rparr>) = instancePaths L base c"
  by (simp add: fun_eq_iff instancePaths_def instanceLogPaths_def instanceDataPaths_def
      instanceTLSPath_def)

lemma monitorCleaned_delFileMap [simp]:
  "monitorCleaned na (c\<lparr>delFileMap := m\<rparr>) = monitorCleaned na c"
  by (simp add: fun_eq_iff monitorCleaned_def)

lemma monitorPaths_delFileMap [simp]:
  "monitorPaths L base mo (c\<lparr>delFileMap := m\<rparr>) = monitorPaths L base mo c"
  by (simp add: monitorPaths_def)

lemma cleanupInstance_joinStep:
  "cleanupInstance L topo ins (c\<lparr>delFileMap := m\<rparr>) =
     c\<lparr>delFileMap := joinStep (contributes L c) GetHost (instancePaths L (BaseTopo topo) c) ins m\<rparr>"
  by (simp add: cleanupInstance_eq joinStep_def contributes_def)

lemma cleanupMonitorHost_joinStep:
  "cleanupMonitorHost L topo mo na host (c\<lparr>delFileMap := m\<rparr>) =
     c\<lparr>delFileMap := joinStep (monitorCleaned na c) (\<lambda>h. h)
                        (\<lambda>h. monitorPaths L (BaseTopo topo) mo c) host m\<rparr>"
  by (simp add: cleanupMonitorHost_eq joinStep_def monitorCleaned_def)

lemma fold_cleanupInstance:
  "fold (cleanupInstance L topo) xs (c\<lparr>delFileMap := m\<rparr>) =
     c\<lparr>delFileMap :=
         fold (joinStep (contributes L c) GetHost (instancePaths L (BaseTopo topo) c)) xs m\<rparr>"
proof (induction xs arbitrary: m)
  case Nil
  then show ?case by simp
next
  case (Cons x xs)
  have "fold (cleanupInstance L topo) (x # xs) (c\<lparr>delFileMap := m\<rparr>) =
        fold (cleanupInstance L topo) xs (cleanupInstance L topo x (c\<lparr>delFileMap := m\<rparr>))"
    by simp
  also have "\<dots> = fold (cleanupInstance L topo) xs
      (c\<lparr>delFileMap := joinStep (contributes L c) GetHost (instancePaths L (BaseTopo topo) c) x m\<rparr>)"
    by (simp only: cleanupInstance_joinStep)
  also have "\<dots> = c\<lparr>delFileMap :=
         fold (joinStep (contributes L c) GetHost (instancePaths L (BaseTopo topo) c)) xs
           (joinStep (contributes L c) GetHost (instancePaths L (BaseTopo topo) c) x m)\<rparr>"
    by (rule Cons.IH)
  finally show ?case by simp
qed

lemma fold_cleanupMonitorHost:
  "fold (cleanupMonitorHost L topo mo na) hs (c\<lparr>delFileMap := m\<rparr>) =
     c\<lparr>delFileMap :=
         fold (joinStep (monitorCleaned na c) (\<lambda>h. h) (\<lambda>h. monitorPaths L (BaseTopo topo) mo c)) hs m\<rparr>"
proof (induction hs arbitrary: m)
  case Nil
  then show ?case by simp
next
  case (Cons h hs)
  have "fold (cleanupMonitorHost L topo mo na) (h # hs) (c\<lparr>delFileMap := m\<rparr>) =
        fold (cleanupMonitorHost L topo mo na) hs
          (cleanupMonitorHost L topo mo na h (c\<lparr>delFileMap := m\<rparr>))"
    by simp
  also have "\<dots> = fold (cleanupMonitorHost L topo mo na) hs
      (c\<lparr>delFileMap := joinStep (monitorCleaned na c) (\<lambda>h. h)
                          (\<lambda>h. monitorPaths L (BaseTopo topo) mo c) h m\<rparr>)"
    by (simp only: cleanupMonitorHost_joinStep)
  also have "\<dots> = c\<lparr>delFileMap :=
         fold (joinStep (monitorCleaned na c) (\<lambda>h. h) (\<lambda>h. monitorPaths L (BaseTopo topo) mo c)) hs
           (joinStep (monitorCleaned na c) (\<lambda>h. h) (\<lambda>h. monitorPaths L (BaseTopo topo) mo c) h m)\<rparr>"
    by (rule Cons.IH)
  finally show ?case by simp
qed

lemma instanceCleanupFiles_fold:
  "instanceCleanupFiles L topo c =
     fold (cleanupInstance L topo) (concat (map Instances (ComponentsByStopOrder topo))) c"
proof -
  have "fold (\<lambda>com c1. fold (cleanupInstance L topo) (Instances com) c1) cs c =
        fold (cleanupInstance L topo) (concat (map Instances cs)) c" for cs
    by (induction cs arbitrary: c) simp_all
  then show ?thesis by (simp add: instanceCleanupFiles_def)
qed

lemma set_stop_order_instances:
  "set (concat (map Instances (ComponentsByStopOrder topo))) = set (IterInstance topo)"
  by (auto simp: ComponentsByStopOrder_def IterInstance_def)

lemma getMonitorHosts_fold:
  "fold (\<lambda>inst (uniqueHosts, noAgentHosts).
             (if uniqueHosts (GetHost inst) = None
                then uniqueHosts(GetHost inst \<mapsto>
                       \<lparr>ssh = GetSSHPort inst, os = Instance.OS inst, arch = Arch inst\<rparr>)
              else uniqueHosts,
              if IgnoreMonitorAgent inst then insert (GetHost inst) noAgentHosts
              else noAgentHosts)) xs (u, n) = (u', n') \<Longrightarrow>
   dom u' = dom u \<union> GetHost ` set xs \<and> n' = n \<union> GetHost ` {i \<in> set xs. IgnoreMonitorAgent i}"
proof (induction xs arbitrary: u n)
  case Nil
  then show ?case by simp
next
  case (Cons x xs)
  show ?case
    using Cons.IH Cons.prems
    by (auto split: if_splits)
qed

lemma getMonitorHosts_hosts:
  "getMonitorHosts topo = (u, n) \<Longrightarrow>
   dom u = GetHost ` set (IterInstance topo)
   \<and> n = GetHost ` {i \<in> set (IterInstance topo). IgnoreMonitorAgent i}"
  using getMonitorHosts_fold [of "IterInstance topo" Map.empty "{}" u n]
  by (simp add: getMonitorHosts_def)


lemma instance_pass:
  "delFileMap (instanceCleanupFiles L topo (c\<lparr>delFileMap := Map.empty\<rparr>)) host =
     (if \<exists>i\<in>set (IterInstance topo). contributes L c i \<and> GetHost i = host
      then Some (\<Union>i\<in>{i \<in> set (IterInstance topo). contributes L c i \<and> GetHost i = host}.
                   instancePaths L (BaseTopo topo) c i)
      else None)"
proof -
  have "delFileMap (instanceCleanupFiles L topo (c\<lparr>delFileMap := Map.empty\<rparr>)) host =
        fold (joinStep (contributes L c) GetHost (instancePaths L (BaseTopo topo) c))
          (concat (map Instances (ComponentsByStopOrder topo))) Map.empty host"
    by (simp add: instanceCleanupFiles_fold fold_cleanupInstance)
  also have "\<dots> =
     (if \<exists>i\<in>set (IterInstance topo). contributes L c i \<and> GetHost i = host
      then Some (entry Map.empty host
                 \<union> (\<Union>i\<in>{i \<in> set (IterInstance topo). contributes L c i \<and> GetHost i = host}.
                   instancePaths L (BaseTopo topo) c i))
      else None)"
    by (simp only: fold_joinStep set_stop_order_instances)
  finally show ?thesis by (simp add: entry_def)
qed

lemma instance_pass_flags:
  "instanceCleanupFiles L topo (c\<lparr>delFileMap := m\<rparr>) =
     c\<lparr>delFileMap := delFileMap (instanceCleanupFiles L topo (c\<lparr>delFileMap := m\<rparr>))\<rparr>"
  by (simp add: instanceCleanupFiles_fold fold_cleanupInstance)

lemma monitor_pass:
  assumes "set hostOrder = dom (fst (getMonitorHosts topo))"
  shows "delFileMap (monitorCleanupFiles L topo hostOrder (c\<lparr>delFileMap := m\<rparr>)) host =
     (case MonitoredOptions (BaseTopo topo) of
        None \<Rightarrow> m host
      | Some mo \<Rightarrow>
          if host \<in> GetHost ` set (IterInstance topo)
             \<and> host \<notin> GetHost ` {i \<in> set (IterInstance topo). IgnoreMonitorAgent i}
             \<and> host \<notin> set (retainDataNodes c)
          then Some (entry m host \<union> monitorPaths L (BaseTopo topo) mo c)
          else m host)"
proof (cases "MonitoredOptions (BaseTopo topo)")
  case None
  then show ?thesis by (simp add: monitorCleanupFiles_def)
next
  case (Some mo)
  obtain u n where un: "getMonitorHosts topo = (u, n)" by (cases "getMonitorHosts topo")
  from getMonitorHosts_hosts [OF un] assms un
  have hosts: "set hostOrder = GetHost ` set (IterInstance topo)"
    and agents: "n = GetHost ` {i \<in> set (IterInstance topo). IgnoreMonitorAgent i}"
    by simp_all
  have "delFileMap (monitorCleanupFiles L topo hostOrder (c\<lparr>delFileMap := m\<rparr>)) host =
        fold (joinStep (monitorCleaned n c) (\<lambda>h. h) (\<lambda>h. monitorPaths L (BaseTopo topo) mo c))
          hostOrder m host"
    by (simp add: monitorCleanupFiles_def Some un fold_cleanupMonitorHost)
  also have "\<dots> =
      (if host \<in> set hostOrder \<and> monitorCleaned n c host
       then Some (entry m host \<union> monitorPaths L (BaseTopo topo) mo c) else m host)"
    by (auto simp: fold_joinStep)
  finally show ?thesis
    by (simp add: Some hosts agents monitorCleaned_def)
qed

lemma getCleanupFiles_cleanupSpec:
  assumes "set hostOrder = dom (fst (getMonitorHosts topo))"
  shows "getCleanupFiles L topo cleanData cleanLog cleanTLS retainRoles retainNodes hostOrder =
         cleanupSpec L (BaseTopo topo)
           \<lparr>cleanupData = cleanData, cleanupLog = cleanLog, cleanupTLS = cleanTLS,
            retainDataRoles = retainRoles, retainDataNodes = retainNodes, delFileMap = Map.empty\<rparr>
           (set (IterInstance topo))"
proof
  fix host
  define c where "c = \<lparr>cleanupData = cleanData, cleanupLog = cleanLog, cleanupTLS = cleanTLS,
            retainDataRoles = retainRoles, retainDataNodes = retainNodes, delFileMap = Map.empty\<rparr>"
  define m where "m = delFileMap (instanceCleanupFiles L topo c)"
  have c: "c\<lparr>delFileMap := Map.empty\<rparr> = c" by (simp add: c_def)
  have flags: "instanceCleanupFiles L topo c = c\<lparr>delFileMap := m\<rparr>"
    using instance_pass_flags [where L = L and topo = topo and c = c and m = Map.empty] by (simp add: c m_def)
  have inst: "m host =
     (if \<exists>i\<in>set (IterInstance topo). contributes L c i \<and> GetHost i = host
      then Some (\<Union>i\<in>{i \<in> set (IterInstance topo). contributes L c i \<and> GetHost i = host}.
                   instancePaths L (BaseTopo topo) c i)
      else None)"
    using instance_pass [where L = L and topo = topo and c = c and host = host] by (simp add: c m_def)
  have "getCleanupFiles L topo cleanData cleanLog cleanTLS retainRoles retainNodes hostOrder host =
        delFileMap (monitorCleanupFiles L topo hostOrder (c\<lparr>delFileMap := m\<rparr>)) host"
    using flags by (simp add: getCleanupFiles_def Let_def c_def)
  also have "\<dots> = cleanupSpec L (BaseTopo topo) c (set (IterInstance topo)) host"
    unfolding monitor_pass [OF assms] inst cleanupSpec_def Let_def entry_def
    by (auto split: option.splits)
  finally show "getCleanupFiles L topo cleanData cleanLog cleanTLS retainRoles retainNodes hostOrder host =
        cleanupSpec L (BaseTopo topo)
           \<lparr>cleanupData = cleanData, cleanupLog = cleanLog, cleanupTLS = cleanTLS,
            retainDataRoles = retainRoles, retainDataNodes = retainNodes, delFileMap = Map.empty\<rparr>
           (set (IterInstance topo)) host"
    by (simp add: c_def)
qed

text \<open>
  C3. The entry of a host in the cleanup path map is a set of globs, so a glob that two
  instances of the host both give (overlapping log directories) is in it once; and the
  map is a function of the set of instances of the topology, of its global and monitored
  options and of the flags: two topologies that list the same instances in any order of
  components and instances, with the same options, give the same map, whatever the
  order in which each run visits the hosts of the monitoring agents.
\<close>

theorem getCleanupFiles_order_independent:
  assumes "set (IterInstance topo2) = set (IterInstance topo1)"
    and "BaseTopo topo2 = BaseTopo topo1"
    and "set hostOrder1 = dom (fst (getMonitorHosts topo1))"
    and "set hostOrder2 = dom (fst (getMonitorHosts topo2))"
  shows "getCleanupFiles L topo2 cleanData cleanLog cleanTLS retainRoles retainNodes hostOrder2 =
         getCleanupFiles L topo1 cleanData cleanLog cleanTLS retainRoles retainNodes hostOrder1
       \<and> getCleanupFiles L topo1 cleanData cleanLog cleanTLS retainRoles retainNodes hostOrder1 =
         cleanupSpec L (BaseTopo topo1)
           \<lparr>cleanupData = cleanData, cleanupLog = cleanLog, cleanupTLS = cleanTLS,
            retainDataRoles = retainRoles, retainDataNodes = retainNodes, delFileMap = Map.empty\<rparr>
           (set (IterInstance topo1))"
  using assms
  by (simp add: getCleanupFiles_cleanupSpec)

theorem getCleanupFiles_order_independent_witness:
  "getCleanupFiles exampleEnv tidbFirst True True False [] [] [''10.0.0.2'', ''10.0.0.1''] =
     getCleanupFiles exampleEnv tikvFirst True True False [] [] [''10.0.0.1'', ''10.0.0.2'']
   \<and> getCleanupFiles exampleEnv tikvFirst True True False [] [] [''10.0.0.1'', ''10.0.0.2'']
       ''10.0.0.1'' =
     Some {''/home/tidb/monitor/data/*'', ''/log/tiup/*.log'', ''/log/tikv/*.log'',
           ''/data/tikv/*'', ''/home/tidb/monitor/log/*.log''}
   \<and> getCleanupFiles exampleEnv tikvFirst True True False [] [] [''10.0.0.1'', ''10.0.0.2'']
       ''10.0.0.2'' =
     Some {''/home/tidb/monitor/data/*'', ''/data/pd/*'', ''/home/tidb/monitor/log/*.log''}"
proof -
  have a: "set (IterInstance tidbFirst) = set (IterInstance tikvFirst)"
    by (auto simp: IterInstance_def tikvFirst_def tidbFirst_def)
  have b: "BaseTopo tidbFirst = BaseTopo tikvFirst"
    by (simp add: tikvFirst_def tidbFirst_def)
  have hosts: "getMonitorHosts tikvFirst =
     ([''10.0.0.1'' \<mapsto> \<lparr>ssh = 22, os = ''linux'', arch = ''amd64''\<rparr>,
       ''10.0.0.2'' \<mapsto> \<lparr>ssh = 22, os = ''linux'', arch = ''amd64''\<rparr>], {})"
    by (simp add: getMonitorHosts_def IterInstance_def tikvFirst_def exampleInstance_def)
  have c: "set [''10.0.0.1'', ''10.0.0.2''] = dom (fst (getMonitorHosts tikvFirst))"
    unfolding hosts by auto
  have d: "set [''10.0.0.2'', ''10.0.0.1''] = dom (fst (getMonitorHosts tidbFirst))"
    by (auto simp: getMonitorHosts_def IterInstance_def tidbFirst_def exampleInstance_def)
  have inst: "instanceCleanupFiles exampleEnv tikvFirst
       \<lparr>cleanupData = True, cleanupLog = True, cleanupTLS = False,
        retainDataRoles = [], retainDataNodes = [], delFileMap = Map.empty\<rparr> =
     \<lparr>cleanupData = True, cleanupLog = True, cleanupTLS = False,
      retainDataRoles = [], retainDataNodes = [],
      delFileMap =
        [''10.0.0.2'' \<mapsto> {''/data/pd/*''},
         ''10.0.0.1'' \<mapsto> {''/log/tiup/*.log'', ''/log/tikv/*.log'', ''/data/tikv/*''}]\<rparr>"
    by (simp add: instanceCleanupFiles_def cleanupInstance_def joinInto_def
        ComponentsByStopOrder_def Let_def exampleEnv_def exampleInstance_def monitoredBase_def
        tikvFirst_def insert_commute)
  have e: "getCleanupFiles exampleEnv tikvFirst True True False [] [] [''10.0.0.1'', ''10.0.0.2'']
       ''10.0.0.1'' =
     Some {''/home/tidb/monitor/data/*'', ''/log/tiup/*.log'', ''/log/tikv/*.log'',
           ''/data/tikv/*'', ''/home/tidb/monitor/log/*.log''}"
    unfolding getCleanupFiles_def Let_def inst monitorCleanupFiles_def hosts
    by (simp add: cleanupMonitorHost_def Let_def joinInto_def exampleEnv_def exampleInstance_def
        monitoredBase_def tikvFirst_def insert_commute)
  have f: "getCleanupFiles exampleEnv tikvFirst True True False [] [] [''10.0.0.1'', ''10.0.0.2'']
       ''10.0.0.2'' =
     Some {''/home/tidb/monitor/data/*'', ''/data/pd/*'', ''/home/tidb/monitor/log/*.log''}"
    unfolding getCleanupFiles_def Let_def inst monitorCleanupFiles_def hosts
    by (simp add: cleanupMonitorHost_def Let_def joinInto_def exampleEnv_def exampleInstance_def
        monitoredBase_def tikvFirst_def insert_commute)
  from getCleanupFiles_order_independent [OF a b c d, of exampleEnv True True False "[]" "[]"] e f
  show ?thesis by simp
qed

lemma cleanupInstance_retained:
  assumes "ComponentName ins \<in> set (retainDataRoles c) \<or> ID ins \<in> set (retainDataNodes c)
           \<or> GetHost ins \<in> set (retainDataNodes c)"
  shows "cleanupInstance L topo ins c = c"
  using assms by (simp add: cleanupInstance_eq dataRetained_def)

lemma IterInstance_withoutRetained:
  "set (IterInstance (withoutRetained roles nodes topo)) =
     {i \<in> set (IterInstance topo).
        ComponentName i \<notin> set roles \<and> ID i \<notin> set nodes \<and> GetHost i \<notin> set nodes}"
  by (auto simp: IterInstance_def withoutRetained_def)

lemma BaseTopo_withoutRetained [simp]:
  "BaseTopo (withoutRetained roles nodes topo) = BaseTopo topo"
  by (simp add: withoutRetained_def)

lemma instanceCleanupFiles_withoutRetained:
  "instanceCleanupFiles L (withoutRetained (retainDataRoles c) (retainDataNodes c) topo)
     (c\<lparr>delFileMap := Map.empty\<rparr>) =
   instanceCleanupFiles L topo (c\<lparr>delFileMap := Map.empty\<rparr>)"
proof -
  let ?t = "withoutRetained (retainDataRoles c) (retainDataNodes c) topo"
  have same: "{i \<in> set (IterInstance ?t). contributes L c i \<and> GetHost i = host} =
              {i \<in> set (IterInstance topo). contributes L c i \<and> GetHost i = host}" for host
    by (auto simp: IterInstance_withoutRetained contributes_def dataRetained_def)
  have ex: "(\<exists>i\<in>set (IterInstance ?t). contributes L c i \<and> GetHost i = host) =
            (\<exists>i\<in>set (IterInstance topo). contributes L c i \<and> GetHost i = host)" for host
    using same [of host] by blast
  have "delFileMap (instanceCleanupFiles L ?t (c\<lparr>delFileMap := Map.empty\<rparr>)) host =
        delFileMap (instanceCleanupFiles L topo (c\<lparr>delFileMap := Map.empty\<rparr>)) host" for host
    unfolding instance_pass same ex by simp
  then have "delFileMap (instanceCleanupFiles L ?t (c\<lparr>delFileMap := Map.empty\<rparr>)) =
        delFileMap (instanceCleanupFiles L topo (c\<lparr>delFileMap := Map.empty\<rparr>))"
    by (rule ext)
  then show ?thesis
    using instance_pass_flags [where L = L and topo = ?t and c = c and m = Map.empty]
      instance_pass_flags [where L = L and topo = topo and c = c and m = Map.empty]
    by simp
qed

text \<open>
  C7. The instances whose component name is in \<^verbatim>\<open>retainDataRoles\<close>, or whose ID or host is in
  \<^verbatim>\<open>retainDataNodes\<close>, contribute nothing to the cleanup path map, whatever the flags: the
  map is the one obtained when the pass over the instances runs on the topology from
  which these instances have been removed.
\<close>

theorem retained_instances_contribute_nothing:
  "getCleanupFiles L topo cleanData cleanLog cleanTLS retainRoles retainNodes hostOrder =
     delFileMap
       (monitorCleanupFiles L topo hostOrder
          (instanceCleanupFiles L (withoutRetained retainRoles retainNodes topo)
             \<lparr>cleanupData = cleanData, cleanupLog = cleanLog, cleanupTLS = cleanTLS,
              retainDataRoles = retainRoles, retainDataNodes = retainNodes,
              delFileMap = Map.empty\<rparr>))"
  using instanceCleanupFiles_withoutRetained
    [of L "\<lparr>cleanupData = cleanData, cleanupLog = cleanLog, cleanupTLS = cleanTLS,
              retainDataRoles = retainRoles, retainDataNodes = retainNodes,
              delFileMap = Map.empty\<rparr>" topo]
  by (simp add: getCleanupFiles_def)

theorem retained_instances_contribute_nothing_witness:
  "getCleanupFiles exampleEnv retainedTikv True True True [''tikv''] [] [''10.0.0.1'', ''10.0.0.2'']
     ''10.0.0.1'' = None
   \<and> getCleanupFiles exampleEnv retainedTikv True True True [''tikv''] [] [''10.0.0.1'', ''10.0.0.2'']
     ''10.0.0.2'' = Some {''/log/tidb/*.log'', ''/data/tidb/*'', ''/home/tidb/deploy/tidb/tls''}"
  unfolding retained_instances_contribute_nothing
  by (simp add: withoutRetained_def monitorCleanupFiles_def instanceCleanupFiles_def
      cleanupInstance_def joinInto_def ComponentsByStopOrder_def Let_def exampleEnv_def
      exampleInstance_def exampleBase_def retainedTikv_def insert_commute)

text \<open>
  C8 (amended). For an instance that is not retained and is not a node_exporter or
  blackbox_exporter instance flagged to ignore the monitor agent, the pass over the
  instances sets the entry of its host to the former entry joined with the log globs,
  the data globs and, if and only if the cleanup-TLS flag is set and cluster-wide TLS is
  disabled, the TLS directory under the absolute deploy directory of the instance.
\<close>

theorem tls_dir_added_iff:
  assumes "\<not> dataRetained c ins" and "\<not> ignoredExporter L ins"
  shows "delFileMap (cleanupInstance L topo ins c) (GetHost ins) =
     Some (entry (delFileMap c) (GetHost ins) \<union> instanceLogPaths L c ins \<union> instanceDataPaths L c ins
           \<union> (if cleanupTLS c \<and> \<not> TLSEnabled (GlobalOptions (BaseTopo topo))
              then {filepathJoin L
                      (specAbs L (User (GlobalOptions (BaseTopo topo))) (Instance.DeployDir ins))
                      (TLSCertKeyDir L)}
              else {}))"
  using assms
  by (simp add: cleanupInstance_eq instancePaths_def instanceTLSPath_def instanceTLSDir_def Un_assoc)

theorem tls_dir_added_iff_witness:
  "delFileMap (cleanupInstance exampleEnv exporterOnly
       (exampleInstance ''tikv'' ''10.0.0.1'' ''/data/tikv'' ''/log/tikv'' False) (tlsFlags True))
     ''10.0.0.1'' = Some {''/home/tidb/deploy/tikv/tls''}
   \<and> delFileMap (cleanupInstance exampleEnv exporterOnly
       (exampleInstance ''tikv'' ''10.0.0.1'' ''/data/tikv'' ''/log/tikv'' False) (tlsFlags False))
     ''10.0.0.1'' = Some {}"
proof -
  let ?i = "exampleInstance ''tikv'' ''10.0.0.1'' ''/data/tikv'' ''/log/tikv'' False"
  have r: "\<not> dataRetained (tlsFlags b) ?i" for b
    by (simp add: dataRetained_def tlsFlags_def)
  have x: "\<not> ignoredExporter exampleEnv ?i"
    by (simp add: ignoredExporter_def exampleEnv_def exampleInstance_def)
  have h: "GetHost ?i = ''10.0.0.1''" by (simp add: exampleInstance_def)
  show ?thesis
    using tls_dir_added_iff [OF r [of True] x, where topo = exporterOnly]
      tls_dir_added_iff [OF r [of False] x, where topo = exporterOnly]
    unfolding h
    by (simp add: tlsFlags_def entry_def instanceLogPaths_def instanceDataPaths_def exampleEnv_def
        exampleInstance_def exampleBase_def exporterOnly_def)
qed

text \<open>
  C8 as stated fails: a node_exporter instance flagged to ignore the monitor agent is not
  retained, the cleanup-TLS flag is set and cluster-wide TLS is disabled, yet the pass
  skips the instance: its host gets no entry, hence no TLS directory.
\<close>

theorem ignored_exporter_tls_dir_not_added:
  "cleanupTLS (tlsFlags True) \<and> \<not> TLSEnabled (GlobalOptions (BaseTopo exporterOnly))
   \<and> \<not> dataRetained (tlsFlags True) (exampleInstance ''node_exporter'' ''10.0.0.9'' '''' '''' True)
   \<and> instanceCleanupFiles exampleEnv exporterOnly (tlsFlags True) = tlsFlags True
   \<and> getCleanupFiles exampleEnv exporterOnly False False True [] [] [''10.0.0.9''] ''10.0.0.9'' = None"
  by (simp add: getCleanupFiles_def monitorCleanupFiles_def instanceCleanupFiles_def
      cleanupInstance_def ComponentsByStopOrder_def Let_def exampleEnv_def exampleInstance_def
      exampleBase_def exporterOnly_def tlsFlags_def dataRetained_def)

section \<open>Properties of the Manager operations\<close>

lemma locked_siblings:
  assumes "ScaleOutLockedErr w name = Some err"
  shows "StartCluster w name fn = (Some err, [LockChecked name])"
    and "StopCluster w name skipConfirm = (Some err, [LockChecked name])"
    and "RestartCluster w name skipConfirm = (Some err, [LockChecked name])"
  using assms by (simp_all add: StartCluster_def StopCluster_def RestartCluster_def stopOrRestart_def)

text \<open>
  C4 (the code departs from the claim). \<^verbatim>\<open>StartCluster\<close>, \<^verbatim>\<open>StopCluster\<close> and \<^verbatim>\<open>RestartCluster\<close>
  check the scale-out lock first and return its error before anything else happens.
  \<^verbatim>\<open>EnableCluster\<close> never checks it: with the lock held, enabling and disabling both build
  the task and run its step.
\<close>

theorem EnableCluster_ignores_lock:
  "ScaleOutLockedErr lockedWorld ''prod'' = Some (LockedErr ''prod'')
   \<and> EnableCluster lockedWorld ''prod'' True =
       (None, [MetaLoaded ''prod'', BuilderCreated ''prod'', TaskBuilt [''EnableCluster''],
               StepExecuted ''EnableCluster''])
   \<and> EnableCluster lockedWorld ''prod'' False =
       (None, [MetaLoaded ''prod'', BuilderCreated ''prod'', TaskBuilt [''DisableCluster''],
               StepExecuted ''DisableCluster''])
   \<and> StartCluster lockedWorld ''prod'' [] = (Some (LockedErr ''prod''), [LockChecked ''prod''])"
  by (simp add: EnableCluster_def StartCluster_def lockedWorld_def metaFatal_def buildAndExecute_def)

end
